theory Spec2Isabelle
  imports Main "HOL-Library.Word"
begin

section \<open>Forum-topic operations of the Telegram bot client (forum\_topic.go)\<close>

text \<open>
  Every operation of the file has the same shape: it builds a \<^verbatim>\<open>map[string]string\<close>,
  hands it with an endpoint name to the method \<^verbatim>\<open>b.Raw\<close>, and either returns the error of
  that call or decodes the returned bytes. The file itself contains no loop and no
  assignment to anything but its own local variables.

  The embedding follows the Go text line by line. What the file calls but does not
  define is kept apart:
  \<^item> \<^verbatim>\<open>strconv.FormatInt\<close>, \<^verbatim>\<open>strconv.Itoa\<close>, \<^verbatim>\<open>errors.New\<close> and \<^verbatim>\<open>json.Unmarshal\<close> belong
    to the Go standard library; they are modelled after the behaviour that library
    documents;
  \<^item> \<^verbatim>\<open>(*Bot).Raw\<close>, \<^verbatim>\<open>(*Chat).Recipient\<close>, \<^verbatim>\<open>wrapError\<close> and the type \<^verbatim>\<open>Sticker\<close> are
    declared in other files of the package; they are parameters of the model, collected
    in the record \<open>collab\<close>, and the theorems about the operations hold for all of
    them. The examples fix them.
\<close>

subsection \<open>Data\<close>

text \<open>\<^verbatim>\<open>[]byte\<close> and \<^verbatim>\<open>string\<close> are byte sequences.\<close>

type_synonym bytes = string

text \<open>
  \<^verbatim>\<open>int64\<close> is a 64-bit word read in two's complement. \<^verbatim>\<open>int\<close> has the width of the
  target; the model takes the 64-bit targets, whose values include those of the
  32-bit ones.
\<close>

type_synonym int64 = "64 word"
type_synonym go_int = "64 word"

text \<open>The struct \<^verbatim>\<open>ForumTopic\<close> (lines 12--25).\<close>

record ForumTopic =
  Name :: string
  MessageThreadID :: go_int
  IconColor :: int64
  IconCustomEmojiID :: string

text \<open>
  A value of the interface type \<^verbatim>\<open>error\<close> other than \<^verbatim>\<open>nil\<close>. \<open>ErrorsNew\<close> is what
  \<^verbatim>\<open>errors.New\<close> returns, \<open>UnmarshalTypeError\<close> is the error of that name of
  \<^verbatim>\<open>encoding/json\<close> with its field \<^verbatim>\<open>Value\<close>, and \<open>Other\<close> stands for every error
  made elsewhere (by the transport, by the JSON scanner, by \<^verbatim>\<open>wrapError\<close>). A result
  of type \<^verbatim>\<open>error\<close> is an \<open>'x error option\<close>, with \<open>None\<close> for \<^verbatim>\<open>nil\<close>.
\<close>

datatype 'x error = ErrorsNew string | UnmarshalTypeError string | Other 'x

text \<open>
  The request parameters are a \<^verbatim>\<open>map[string]string\<close>. \<^verbatim>\<open>Raw\<close> takes its payload as an
  \<^verbatim>\<open>interface{}\<close>; the file passes either such a map or \<^verbatim>\<open>nil\<close>.
\<close>

type_synonym params = "string \<rightharpoonup> string"
type_synonym payload = "params option"

text \<open>A JSON value, as the scanner of \<^verbatim>\<open>encoding/json\<close> delivers it to the decoder.\<close>

datatype json =
    JNull
  | JBool bool
  | JNumber string
  | JString string
  | JArray "json list"
  | JObject "(string \<times> json) list"

subsection \<open>Collaborators defined outside the file\<close>

text \<open>
  \<open>'c\<close> is a chat reference (\<^verbatim>\<open>*Chat\<close>), \<open>'p\<close> a non-nil \<^verbatim>\<open>*ForumTopic\<close>, \<open>'s\<close> the
  state of the program and of everything the transport reaches (the \<^verbatim>\<open>Bot\<close>, the
  objects behind the pointers, the network), \<open>'x\<close> the errors made outside the file
  and \<open>'k\<close> the type \<^verbatim>\<open>Sticker\<close>.
  \<^item> \<open>Recipient b chat s\<close> is \<^verbatim>\<open>chat.Recipient()\<close> in state \<open>s\<close>. The model covers the
    chat references on which the method returns, and takes it to read the state
    without changing it.
  \<^item> \<open>topicAt b p s\<close> is the struct the pointer \<open>p\<close> refers to in state \<open>s\<close>.
  \<^item> \<open>Raw b method payload s\<close> is \<^verbatim>\<open>b.Raw(method, payload)\<close>: the two values it returns
    and the state it leaves.
  \<^item> \<open>wrapError b err\<close> is \<^verbatim>\<open>wrapError(err)\<close>, an error; it is a function of \<open>err\<close>
    alone.
  \<^item> \<open>scanJSON b data\<close> is the syntax check of \<^verbatim>\<open>json.Unmarshal\<close>: the error it
    reports on bytes that are not one JSON text, the value they denote otherwise.
  \<^item> \<open>topicInto b cur v\<close> and \<open>stickersInto b cur v\<close> store a JSON value other than
    \<^verbatim>\<open>null\<close> into a field of type \<^verbatim>\<open>*ForumTopic\<close> and \<^verbatim>\<open>[]Sticker\<close> that holds \<open>cur\<close>:
    the new content of the field and the error the decoder records, if any.
\<close>

record ('c, 'p, 's, 'x, 'k) collab =
  Recipient :: "'c \<Rightarrow> 's \<Rightarrow> string"
  topicAt :: "'p \<Rightarrow> 's \<Rightarrow> ForumTopic"
  Raw :: "string \<Rightarrow> payload \<Rightarrow> 's \<Rightarrow> (bytes \<times> 'x error option) \<times> 's"
  wrapError :: "'x error \<Rightarrow> 'x error"
  scanJSON :: "bytes \<Rightarrow> 'x error + json"
  topicInto :: "ForumTopic option \<Rightarrow> json \<Rightarrow> ForumTopic option \<times> 'x error option"
  stickersInto :: "'k list option \<Rightarrow> json \<Rightarrow> 'k list option \<times> 'x error option"

subsection \<open>\<^verbatim>\<open>strconv\<close>: decimal text of an integer\<close>

text \<open>
  \<^verbatim>\<open>formatBits\<close> fills its buffer from the right with the digits of the magnitude;
  \<^verbatim>\<open>FormatInt(i, 10)\<close> puts a minus sign in front of the magnitude of a negative
  \<open>i\<close>. \<^verbatim>\<open>Itoa(i)\<close> is \<^verbatim>\<open>FormatInt(int64(i), 10)\<close>.
\<close>

definition digit :: "nat \<Rightarrow> char" where
  "digit d = ''0123456789'' ! d"

fun formatBits :: "string \<Rightarrow> nat \<Rightarrow> string" where
  "formatBits a u = (if u < 10 then digit u # a else formatBits (digit (u mod 10) # a) (u div 10))"

definition FormatInt :: "int64 \<Rightarrow> string" where
  "FormatInt i = (if sint i < 0 then CHR ''-'' # formatBits [] (nat (- sint i))
                  else formatBits [] (nat (sint i)))"

definition Itoa :: "go_int \<Rightarrow> string" where
  "Itoa i = FormatInt i"

subsection \<open>\<^verbatim>\<open>encoding/json\<close>: decoding into a struct with the one field \<^verbatim>\<open>Result\<close>\<close>

text \<open>
  A key of a JSON object selects the field \<^verbatim>\<open>Result\<close> when it equals the name or
  differs from it by letter case only; the library also takes the long s (U+017F,
  the bytes C5 BF) for an \<^verbatim>\<open>s\<close>. \<open>keyIs\<close> compares a field name made of ASCII letters
  with a key in this way.
\<close>

definition upper :: "char \<Rightarrow> nat" where
  "upper c = (if 97 \<le> (of_char c :: nat) \<and> (of_char c :: nat) \<le> 122
              then of_char c - 32 else of_char c)"

fun keyIs :: "string \<Rightarrow> string \<Rightarrow> bool" where
  "keyIs [] t = (t = [])"
| "keyIs (sb # s) [] = False"
| "keyIs (sb # s) [tb] = (upper sb = upper tb \<and> s = [])"
| "keyIs (sb # s) (tb # tc # t) =
     (if upper sb = upper tb then keyIs s (tc # t)
      else upper sb = 83 \<and> (of_char tb :: nat) = 197 \<and> (of_char tc :: nat) = 191 \<and> keyIs s t)"

text \<open>The text the library puts into the field \<^verbatim>\<open>Value\<close> of an \<^verbatim>\<open>UnmarshalTypeError\<close>.\<close>

fun valueName :: "json \<Rightarrow> string" where
  "valueName JNull = ''null''"
| "valueName (JBool _) = ''bool''"
| "valueName (JNumber _) = ''number''"
| "valueName (JString _) = ''string''"
| "valueName (JArray _) = ''array''"
| "valueName (JObject _) = ''object''"

text \<open>The decoder keeps the first error it records and goes on.\<close>

fun saveError :: "'x error option \<Rightarrow> 'x error option \<Rightarrow> 'x error option" where
  "saveError None e = e"
| "saveError (Some d) e = Some d"

text \<open>
  The members of an object, in the order of the text. A member whose key selects
  \<^verbatim>\<open>Result\<close> is stored into the field: \<^verbatim>\<open>null\<close> sets a pointer or a slice to \<^verbatim>\<open>nil\<close>,
  any other value goes through \<open>into\<close>. Every other member is skipped. The state of
  the loop is the content of the field and the recorded error.
\<close>

fun decodeObject ::
  "('r option \<Rightarrow> json \<Rightarrow> 'r option \<times> 'x error option) \<Rightarrow> (string \<times> json) list \<Rightarrow>
   'r option \<times> 'x error option \<Rightarrow> 'r option \<times> 'x error option" where
  "decodeObject into [] st = st"
| "decodeObject into ((key, v) # ms) (res, saved) =
     (if keyIs ''Result'' key then
        (case v of
           JNull \<Rightarrow> decodeObject into ms (None, saved)
         | _ \<Rightarrow> (case into res v of (res', e) \<Rightarrow> decodeObject into ms (res', saveError saved e)))
      else decodeObject into ms (res, saved))"

text \<open>
  \<^verbatim>\<open>json.Unmarshal(data, &resp)\<close> for a fresh \<^verbatim>\<open>resp\<close> of type
  \<^verbatim>\<open>struct { Result T }\<close>, \<open>T\<close> a pointer or a slice: the content of \<^verbatim>\<open>resp.Result\<close>
  afterwards and the error returned. Bytes that are not JSON give the scanner's
  error; \<^verbatim>\<open>null\<close> leaves the struct as it is; an object is decoded member by member;
  any other value cannot be stored into a struct and gives an \<^verbatim>\<open>UnmarshalTypeError\<close>.
\<close>

definition Unmarshal ::
  "(bytes \<Rightarrow> 'x error + json) \<Rightarrow> ('r option \<Rightarrow> json \<Rightarrow> 'r option \<times> 'x error option) \<Rightarrow>
   bytes \<Rightarrow> 'r option \<times> 'x error option" where
  "Unmarshal scan into data =
     (case scan data of
        Inl e \<Rightarrow> (None, Some e)
      | Inr v \<Rightarrow>
          (case v of
             JNull \<Rightarrow> (None, None)
           | JObject ms \<Rightarrow> decodeObject into ms (None, None)
           | _ \<Rightarrow> (None, Some (UnmarshalTypeError (valueName v)))))"

subsection \<open>The operations\<close>

text \<open>
  An operation takes the collaborators, its Go arguments and the state, and returns
  its Go results and the state after it. The maps of \<^verbatim>\<open>CreateForumTopic\<close> (lines
  76--87) and \<^verbatim>\<open>EditForumTopic\<close> (lines 110--121) are built in steps that depend on
  the arguments; they are named here so that theorems can speak about them.
\<close>

definition CreateForumTopic_params :: "('c, 'p, 's, 'x, 'k) collab \<Rightarrow> 'c \<Rightarrow> 'p \<Rightarrow> 's \<Rightarrow> params" where
  "CreateForumTopic_params b chat ft s =
     (let params = [''chat_id'' \<mapsto> Recipient b chat s, ''name'' \<mapsto> Name (topicAt b ft s)];
          params = (if IconColor (topicAt b ft s) \<noteq> 0
                    then params(''icon_color'' \<mapsto> FormatInt (IconColor (topicAt b ft s)))
                    else params);
          params = (if IconCustomEmojiID (topicAt b ft s) \<noteq> ''''
                    then params(''icon_custom_emoji_id'' \<mapsto> IconCustomEmojiID (topicAt b ft s))
                    else params)
      in params)"

text \<open>
  \<^verbatim>\<open>CreateForumTopic\<close> (lines 72--101). The check for a nil topic comes first; the
  error of \<^verbatim>\<open>Raw\<close> is returned as it is; an error of \<^verbatim>\<open>json.Unmarshal\<close> goes through
  \<^verbatim>\<open>wrapError\<close>; otherwise \<^verbatim>\<open>resp.Result\<close> is returned, whatever it holds.
\<close>

definition CreateForumTopic ::
  "('c, 'p, 's, 'x, 'k) collab \<Rightarrow> 'c \<Rightarrow> 'p option \<Rightarrow> 's \<Rightarrow>
   (ForumTopic option \<times> 'x error option) \<times> 's" where
  "CreateForumTopic b chat ft s =
     (case ft of
        None \<Rightarrow> ((None, Some (ErrorsNew ''telebot: forum topic is nil'')), s)
      | Some p \<Rightarrow>
          (case Raw b ''createForumTopic'' (Some (CreateForumTopic_params b chat p s)) s of
             ((data, Some err), s') \<Rightarrow> ((None, Some err), s')
           | ((data, None), s') \<Rightarrow>
               (case Unmarshal (scanJSON b) (topicInto b) data of
                  (res, Some err) \<Rightarrow> ((None, Some (wrapError b err)), s')
                | (res, None) \<Rightarrow> ((res, None), s'))))"

definition EditForumTopic_params ::
  "('c, 'p, 's, 'x, 'k) collab \<Rightarrow> 'c \<Rightarrow> go_int \<Rightarrow> string \<Rightarrow> string \<Rightarrow> 's \<Rightarrow> params" where
  "EditForumTopic_params b chat msgThreadID name icon s =
     (let params = [''chat_id'' \<mapsto> Recipient b chat s, ''message_thread_id'' \<mapsto> Itoa msgThreadID];
          params = (if name \<noteq> '''' then params(''name'' \<mapsto> name) else params);
          params = (if icon \<noteq> '''' then params(''icon_custom_emoji_id'' \<mapsto> icon) else params)
      in params)"

text \<open>
  The operations that return only an error (lines 109--178 and 200--258) drop the
  bytes and return the second value of \<^verbatim>\<open>Raw\<close>.
\<close>

definition EditForumTopic ::
  "('c, 'p, 's, 'x, 'k) collab \<Rightarrow> 'c \<Rightarrow> go_int \<Rightarrow> string \<Rightarrow> string \<Rightarrow> 's \<Rightarrow> 'x error option \<times> 's" where
  "EditForumTopic b chat msgThreadID name icon s =
     (case Raw b ''editForumTopic'' (Some (EditForumTopic_params b chat msgThreadID name icon s)) s of
        ((data, err), s') \<Rightarrow> (err, s'))"

definition CloseForumTopic ::
  "('c, 'p, 's, 'x, 'k) collab \<Rightarrow> 'c \<Rightarrow> go_int \<Rightarrow> 's \<Rightarrow> 'x error option \<times> 's" where
  "CloseForumTopic b chat msgThreadID s =
     (case Raw b ''closeForumTopic''
             (Some [''chat_id'' \<mapsto> Recipient b chat s, ''message_thread_id'' \<mapsto> Itoa msgThreadID]) s of
        ((data, err), s') \<Rightarrow> (err, s'))"

definition ReopenForumTopic ::
  "('c, 'p, 's, 'x, 'k) collab \<Rightarrow> 'c \<Rightarrow> go_int \<Rightarrow> 's \<Rightarrow> 'x error option \<times> 's" where
  "ReopenForumTopic b chat msgThreadID s =
     (case Raw b ''reopenForumTopic''
             (Some [''chat_id'' \<mapsto> Recipient b chat s, ''message_thread_id'' \<mapsto> Itoa msgThreadID]) s of
        ((data, err), s') \<Rightarrow> (err, s'))"

definition DeleteForumTopic ::
  "('c, 'p, 's, 'x, 'k) collab \<Rightarrow> 'c \<Rightarrow> go_int \<Rightarrow> 's \<Rightarrow> 'x error option \<times> 's" where
  "DeleteForumTopic b chat msgThreadID s =
     (case Raw b ''deleteForumTopic''
             (Some [''chat_id'' \<mapsto> Recipient b chat s, ''message_thread_id'' \<mapsto> Itoa msgThreadID]) s of
        ((data, err), s') \<Rightarrow> (err, s'))"

definition UnpinAllForumTopicMessages ::
  "('c, 'p, 's, 'x, 'k) collab \<Rightarrow> 'c \<Rightarrow> go_int \<Rightarrow> 's \<Rightarrow> 'x error option \<times> 's" where
  "UnpinAllForumTopicMessages b chat msgThreadID s =
     (case Raw b ''unpinAllForumTopicMessages''
             (Some [''chat_id'' \<mapsto> Recipient b chat s, ''message_thread_id'' \<mapsto> Itoa msgThreadID]) s of
        ((data, err), s') \<Rightarrow> (err, s'))"

text \<open>
  \<^verbatim>\<open>GetForumTopicIconStickers\<close> (lines 182--195) passes \<^verbatim>\<open>nil\<close> as payload and decodes
  like \<^verbatim>\<open>CreateForumTopic\<close>, into a slice. \<open>None\<close> is the nil slice.
\<close>

definition GetForumTopicIconStickers ::
  "('c, 'p, 's, 'x, 'k) collab \<Rightarrow> 's \<Rightarrow> ('k list option \<times> 'x error option) \<times> 's" where
  "GetForumTopicIconStickers b s =
     (case Raw b ''getForumTopicIconStickers'' None s of
        ((data, Some err), s') \<Rightarrow> ((None, Some err), s')
      | ((data, None), s') \<Rightarrow>
          (case Unmarshal (scanJSON b) (stickersInto b) data of
             (res, Some err) \<Rightarrow> ((None, Some (wrapError b err)), s')
           | (res, None) \<Rightarrow> ((res, None), s')))"

definition EditGeneralForumTopic ::
  "('c, 'p, 's, 'x, 'k) collab \<Rightarrow> 'c \<Rightarrow> string \<Rightarrow> 's \<Rightarrow> 'x error option \<times> 's" where
  "EditGeneralForumTopic b chat name s =
     (case Raw b ''editGeneralForumTopic''
             (Some [''chat_id'' \<mapsto> Recipient b chat s, ''name'' \<mapsto> name]) s of
        ((data, err), s') \<Rightarrow> (err, s'))"

definition CloseGeneralForumTopic ::
  "('c, 'p, 's, 'x, 'k) collab \<Rightarrow> 'c \<Rightarrow> 's \<Rightarrow> 'x error option \<times> 's" where
  "CloseGeneralForumTopic b chat s =
     (case Raw b ''closeGeneralForumTopic'' (Some [''chat_id'' \<mapsto> Recipient b chat s]) s of
        ((data, err), s') \<Rightarrow> (err, s'))"

definition ReopenGeneralForumTopic ::
  "('c, 'p, 's, 'x, 'k) collab \<Rightarrow> 'c \<Rightarrow> 's \<Rightarrow> 'x error option \<times> 's" where
  "ReopenGeneralForumTopic b chat s =
     (case Raw b ''reopenGeneralForumTopic'' (Some [''chat_id'' \<mapsto> Recipient b chat s]) s of
        ((data, err), s') \<Rightarrow> (err, s'))"

definition HideGeneralForumTopic ::
  "('c, 'p, 's, 'x, 'k) collab \<Rightarrow> 'c \<Rightarrow> 's \<Rightarrow> 'x error option \<times> 's" where
  "HideGeneralForumTopic b chat s =
     (case Raw b ''hideGeneralForumTopic'' (Some [''chat_id'' \<mapsto> Recipient b chat s]) s of
        ((data, err), s') \<Rightarrow> (err, s'))"

definition UnhideGeneralForumTopic ::
  "('c, 'p, 's, 'x, 'k) collab \<Rightarrow> 'c \<Rightarrow> 's \<Rightarrow> 'x error option \<times> 's" where
  "UnhideGeneralForumTopic b chat s =
     (case Raw b ''unhideGeneralForumTopic'' (Some [''chat_id'' \<mapsto> Recipient b chat s]) s of
        ((data, err), s') \<Rightarrow> (err, s'))"

text \<open>The second value returned by \<^verbatim>\<open>Raw\<close>.\<close>

abbreviation rawErr ::
  "('c, 'p, 's, 'x, 'k) collab \<Rightarrow> string \<Rightarrow> payload \<Rightarrow> 's \<Rightarrow> 'x error option" where
  "rawErr b method p s \<equiv> snd (fst (Raw b method p s))"

subsection \<open>A transport that records its calls\<close>

text \<open>
  The test double of the transport: the state is the list of the calls made so far,
  each with its endpoint name and payload, and the answer may depend on all of them.
  What an operation sends, and how often, is read off the state it leaves.
\<close>

type_synonym call = "string \<times> payload"

definition recording ::
  "(call list \<Rightarrow> string \<Rightarrow> payload \<Rightarrow> bytes \<times> 'x error option) \<Rightarrow>
   string \<Rightarrow> payload \<Rightarrow> call list \<Rightarrow> (bytes \<times> 'x error option) \<times> call list" where
  "recording respond method p log = (respond log method p, log @ [(method, p)])"

subsection \<open>Reading decimal text\<close>

text \<open>
  The words of the specification about integer fields: base-10 text, no sign, no
  leading zero. \<open>isDecimal\<close> says that a text is such a numeral (the numeral of zero is
  the single digit) and \<open>decimalValue\<close> is the number it denotes.
\<close>

definition isDigit :: "char \<Rightarrow> bool" where
  "isDigit c = (48 \<le> (of_char c :: nat) \<and> (of_char c :: nat) \<le> 57)"

definition isDecimal :: "string \<Rightarrow> bool" where
  "isDecimal t = (t \<noteq> [] \<and> list_all isDigit t \<and> (t = ''0'' \<or> hd t \<noteq> CHR ''0''))"

definition decimalValue :: "string \<Rightarrow> nat" where
  "decimalValue t = foldl (\<lambda>n c. 10 * n + (of_char c - 48)) 0 t"

subsection \<open>Response bodies without a result\<close>

text \<open>
  A JSON value has a result when it is an object with a member whose key selects the
  field \<^verbatim>\<open>Result\<close> and whose value is not \<^verbatim>\<open>null\<close>.
\<close>

fun resultMember :: "string \<times> json \<Rightarrow> bool" where
  "resultMember (key, v) = (keyIs ''Result'' key \<and> v \<noteq> JNull)"

fun hasResult :: "json \<Rightarrow> bool" where
  "hasResult (JObject ms) = list_ex resultMember ms"
| "hasResult _ = False"

fun isObject :: "json \<Rightarrow> bool" where
  "isObject (JObject ms) = True"
| "isObject _ = False"

subsection \<open>Collaborators for the examples\<close>

text \<open>
  A transport that works on the second component of the state only; the first
  component stands for the memory of the program.
\<close>

definition remote ::
  "(string \<Rightarrow> payload \<Rightarrow> 'w \<Rightarrow> (bytes \<times> 'x error option) \<times> 'w) \<Rightarrow>
   string \<Rightarrow> payload \<Rightarrow> 'l \<times> 'w \<Rightarrow> (bytes \<times> 'x error option) \<times> ('l \<times> 'w)" where
  "remote raw method p s = (case raw method p (snd s) of (r, w) \<Rightarrow> (r, (fst s, w)))"

text \<open>The text of an error, for the examples.\<close>

fun Error :: "string error \<Rightarrow> string" where
  "Error (ErrorsNew m) = m"
| "Error (UnmarshalTypeError v) = ''json: cannot unmarshal '' @ v"
| "Error (Other m) = m"

text \<open>
  The scanner on the bodies the examples use: two objects, an array, \<^verbatim>\<open>null\<close>, and
  the malformed body that consists of an opening brace, for which the library reports
  the end of the input. No example uses another body.
\<close>

definition scanExamples :: "bytes \<Rightarrow> string error + json" where
  "scanExamples data =
     (if data = ''{}'' then Inr (JObject [])
      else if data = ''{\"ok\":true}'' then Inr (JObject [(''ok'', JBool True)])
      else if data = ''[]'' then Inr (JArray [])
      else if data = ''null'' then Inr JNull
      else if data = ''{'' then Inl (Other ''unexpected end of JSON input'')
      else Inl (Other ''a body that is not among the examples''))"

text \<open>
  Collaborators for the examples, around a given transport: a chat reference is its
  own recipient text, a topic pointer is the struct itself, \<^verbatim>\<open>wrapError\<close> puts the
  package name in front of the text, and the decoders of the result take an object
  for a topic with all fields zero and an array for a list without elements.
\<close>

definition demo ::
  "(string \<Rightarrow> payload \<Rightarrow> 's \<Rightarrow> (bytes \<times> string error option) \<times> 's) \<Rightarrow>
   (string, ForumTopic, 's, string, unit) collab" where
  "demo raw =
     \<lparr> Recipient = (\<lambda>chat s. chat),
       topicAt = (\<lambda>ft s. ft),
       Raw = raw,
       wrapError = (\<lambda>err. Other (''telebot: '' @ Error err)),
       scanJSON = scanExamples,
       topicInto = (\<lambda>cur v. if isObject v
                     then (Some \<lparr>Name = '''', MessageThreadID = 0, IconColor = 0, IconCustomEmojiID = ''''\<rparr>, None)
                     else (cur, Some (UnmarshalTypeError (valueName v)))),
       stickersInto = (\<lambda>cur v. if v = JArray [] then (Some [], None)
                        else (cur, Some (UnmarshalTypeError (valueName v)))) \<rparr>"

text \<open>Three transports: one that fails, and two that answer with a fixed body.\<close>

definition refused :: "call list \<Rightarrow> string \<Rightarrow> payload \<Rightarrow> bytes \<times> string error option" where
  "refused log method p = ([], Some (Other ''connection refused''))"

definition answers :: "bytes \<Rightarrow> call list \<Rightarrow> string \<Rightarrow> payload \<Rightarrow> bytes \<times> string error option" where
  "answers body log method p = (body, None)"

text \<open>A topic descriptor for the examples.\<close>

definition bugs :: ForumTopic where
  "bugs = \<lparr>Name = ''Bugs'', MessageThreadID = 0, IconColor = 7322096, IconCustomEmojiID = ''''\<rparr>"

text \<open>
  The collaborators of the examples: the recording transport answering with the body
  \<^verbatim>\<open>{"ok":true}\<close>, with \<^verbatim>\<open>{}\<close>, with \<^verbatim>\<open>[]\<close>, with the single byte \<^verbatim>\<open>{\<close>, or failing; and
  the recording transport next to a memory of the program, here a number.
\<close>

definition ok_bot :: "(string, ForumTopic, call list, string, unit) collab" where
  "ok_bot = demo (recording (answers ''{\"ok\":true}''))"

definition empty_bot :: "(string, ForumTopic, call list, string, unit) collab" where
  "empty_bot = demo (recording (answers ''{}''))"

definition array_bot :: "(string, ForumTopic, call list, string, unit) collab" where
  "array_bot = demo (recording (answers ''[]''))"

definition junk_bot :: "(string, ForumTopic, call list, string, unit) collab" where
  "junk_bot = demo (recording (answers ''{''))"

definition down_bot :: "(string, ForumTopic, call list, string, unit) collab" where
  "down_bot = demo (recording refused)"

definition local_bot :: "(string, ForumTopic, nat \<times> call list, string, unit) collab" where
  "local_bot = demo (remote (recording (answers ''{}'')))"

text \<open>
  The collaborators \<open>b\<close> with a transport that returns the bytes \<open>body\<close> in place of
  the bytes that the transport of \<open>b\<close> returns, and is the same otherwise.
\<close>

definition withBody :: "bytes \<Rightarrow> ('c, 'p, 's, 'x, 'k) collab \<Rightarrow> ('c, 'p, 's, 'x, 'k) collab" where
  "withBody body b =
     b\<lparr>Raw := (\<lambda>endpoint p s. case Raw b endpoint p s of ((data, err), s') \<Rightarrow> ((body, err), s'))\<rparr>"

declare formatBits.simps [simp del]

section \<open>Properties\<close>

subsection \<open>Decimal text\<close>

text \<open>
  \<open>formatBits\<close> with an accumulator is \<open>formatBits\<close> without, followed by the
  accumulator; so the digits of \<open>u\<close> are those of \<open>u div 10\<close> followed by the last one.
  The inductions are on the number, since its magnitude shrinks by the division.
\<close>

lemma formatBits_small: "u < 10 \<Longrightarrow> formatBits a u = digit u # a"
  by (subst formatBits.simps) simp

lemma formatBits_large: "\<not> u < 10 \<Longrightarrow> formatBits a u = formatBits (digit (u mod 10) # a) (u div 10)"
  by (subst formatBits.simps) simp

lemma formatBits_acc: "formatBits a u = formatBits [] u @ a"
proof (induction u arbitrary: a rule: less_induct)
  case (less u)
  show ?case
  proof (cases "u < 10")
    case True
    then show ?thesis by (simp add: formatBits_small)
  next
    case False
    then have smaller: "u div 10 < u" by simp
    have "formatBits a u = formatBits (digit (u mod 10) # a) (u div 10)"
      using False by (rule formatBits_large)
    also have "\<dots> = formatBits [] (u div 10) @ (digit (u mod 10) # a)"
      by (rule less.IH [OF smaller])
    finally have left: "formatBits a u = formatBits [] (u div 10) @ (digit (u mod 10) # a)" .
    have "formatBits [] u = formatBits [digit (u mod 10)] (u div 10)"
      using False by (rule formatBits_large)
    also have "\<dots> = formatBits [] (u div 10) @ [digit (u mod 10)]"
      by (rule less.IH [OF smaller])
    finally have right: "formatBits [] u = formatBits [] (u div 10) @ [digit (u mod 10)]" .
    show ?thesis unfolding left right by simp
  qed
qed

lemma formatBits_step:
  "\<not> u < 10 \<Longrightarrow> formatBits [] u = formatBits [] (u div 10) @ [digit (u mod 10)]"
proof -
  assume "\<not> u < 10"
  then have "formatBits [] u = formatBits [digit (u mod 10)] (u div 10)"
    by (rule formatBits_large)
  also have "\<dots> = formatBits [] (u div 10) @ [digit (u mod 10)]"
    by (rule formatBits_acc)
  finally show ?thesis .
qed

lemma of_char_digit: "d < 10 \<Longrightarrow> (of_char (digit d) :: nat) = 48 + d"
proof -
  assume "d < 10"
  then have "d = 0 \<or> d = 1 \<or> d = 2 \<or> d = 3 \<or> d = 4 \<or> d = 5 \<or> d = 6 \<or> d = 7 \<or> d = 8 \<or> d = 9"
    by presburger
  then show ?thesis
    by (elim disjE) (simp_all add: digit_def)
qed

lemma isDigit_digit: "d < 10 \<Longrightarrow> isDigit (digit d)"
  by (simp add: of_char_digit isDigit_def)

lemma digit_zero: "d < 10 \<Longrightarrow> digit d = CHR ''0'' \<Longrightarrow> d = 0"
  using of_char_digit [of d] by simp

lemma formatBits_nonempty: "formatBits [] u \<noteq> []"
proof (cases "u < 10")
  case True
  then show ?thesis by (simp add: formatBits_small)
next
  case False
  then show ?thesis by (simp add: formatBits_step [of u])
qed

lemma formatBits_digits: "list_all isDigit (formatBits [] u)"
proof (induction u rule: less_induct)
  case (less u)
  show ?case
  proof (cases "u < 10")
    case True
    then show ?thesis by (simp add: formatBits_small isDigit_digit)
  next
    case False
    then have "u div 10 < u" by simp
    then have "list_all isDigit (formatBits [] (u div 10))" by (rule less.IH)
    then show ?thesis using False by (simp add: formatBits_step [of u] isDigit_digit)
  qed
qed

lemma decimalValue_snoc: "decimalValue (t @ [c]) = 10 * decimalValue t + (of_char c - 48)"
  by (simp add: decimalValue_def)

lemma formatBits_value: "decimalValue (formatBits [] u) = u"
proof (induction u rule: less_induct)
  case (less u)
  show ?case
  proof (cases "u < 10")
    case True
    then show ?thesis by (simp add: formatBits_small decimalValue_def of_char_digit)
  next
    case False
    then have "u div 10 < u" by simp
    then have "decimalValue (formatBits [] (u div 10)) = u div 10" by (rule less.IH)
    then show ?thesis using False
      by (simp add: formatBits_step [of u] decimalValue_snoc of_char_digit)
  qed
qed

lemma formatBits_leading: "0 < u \<Longrightarrow> hd (formatBits [] u) \<noteq> CHR ''0''"
proof (induction u rule: less_induct)
  case (less u)
  show ?case
  proof (cases "u < 10")
    case True
    then show ?thesis using less.prems digit_zero [of u] by (auto simp: formatBits_small)
  next
    case False
    then have "u div 10 < u" and "0 < u div 10" by simp_all
    then have "hd (formatBits [] (u div 10)) \<noteq> CHR ''0''" by (rule less.IH)
    then show ?thesis using False formatBits_nonempty [of "u div 10"]
      by (simp add: formatBits_step [of u])
  qed
qed

lemma formatBits_decimal: "isDecimal (formatBits [] u)"
proof (cases "u = 0")
  case True
  then show ?thesis by (simp add: isDecimal_def formatBits_small digit_def isDigit_def)
next
  case False
  then show ?thesis
    using formatBits_leading [of u]
    by (simp add: isDecimal_def formatBits_nonempty formatBits_digits)
qed

lemma FormatInt_nonneg: "0 \<le> sint i \<Longrightarrow> FormatInt i = formatBits [] (nat (sint i))"
  by (simp add: FormatInt_def)

lemma FormatInt_decimal:
  "0 \<le> sint i \<Longrightarrow> isDecimal (FormatInt i) \<and> decimalValue (FormatInt i) = nat (sint i)"
  by (simp add: FormatInt_nonneg formatBits_decimal formatBits_value)

lemma FormatInt_7322096: "FormatInt 7322096 = ''7322096''"
  by (simp add: FormatInt_def formatBits_small formatBits_large digit_def)

lemma Itoa_12: "Itoa 12 = ''12''"
  by (simp add: Itoa_def FormatInt_def formatBits_small formatBits_large digit_def)

subsection \<open>What each operation does to the state\<close>

text \<open>
  The state an operation leaves is the state its one call of \<^verbatim>\<open>Raw\<close> leaves, on every
  path: the branches after the call only choose the values to return.
\<close>

lemma recording_state: "snd (recording respond method p log) = log @ [(method, p)]"
  by (simp add: recording_def)

lemma CreateForumTopic_state:
  "snd (CreateForumTopic b chat (Some ft) s) =
   snd (Raw b ''createForumTopic'' (Some (CreateForumTopic_params b chat ft s)) s)"
  by (simp add: CreateForumTopic_def split: prod.split option.split)

lemma EditForumTopic_state:
  "snd (EditForumTopic b chat msgThreadID name icon s) =
   snd (Raw b ''editForumTopic'' (Some (EditForumTopic_params b chat msgThreadID name icon s)) s)"
  by (simp add: EditForumTopic_def split: prod.split)

lemma CloseForumTopic_state:
  "snd (CloseForumTopic b chat msgThreadID s) =
   snd (Raw b ''closeForumTopic''
          (Some [''chat_id'' \<mapsto> Recipient b chat s, ''message_thread_id'' \<mapsto> Itoa msgThreadID]) s)"
  by (simp add: CloseForumTopic_def split: prod.split)

lemma ReopenForumTopic_state:
  "snd (ReopenForumTopic b chat msgThreadID s) =
   snd (Raw b ''reopenForumTopic''
          (Some [''chat_id'' \<mapsto> Recipient b chat s, ''message_thread_id'' \<mapsto> Itoa msgThreadID]) s)"
  by (simp add: ReopenForumTopic_def split: prod.split)

lemma DeleteForumTopic_state:
  "snd (DeleteForumTopic b chat msgThreadID s) =
   snd (Raw b ''deleteForumTopic''
          (Some [''chat_id'' \<mapsto> Recipient b chat s, ''message_thread_id'' \<mapsto> Itoa msgThreadID]) s)"
  by (simp add: DeleteForumTopic_def split: prod.split)

lemma UnpinAllForumTopicMessages_state:
  "snd (UnpinAllForumTopicMessages b chat msgThreadID s) =
   snd (Raw b ''unpinAllForumTopicMessages''
          (Some [''chat_id'' \<mapsto> Recipient b chat s, ''message_thread_id'' \<mapsto> Itoa msgThreadID]) s)"
  by (simp add: UnpinAllForumTopicMessages_def split: prod.split)

lemma GetForumTopicIconStickers_state:
  "snd (GetForumTopicIconStickers b s) = snd (Raw b ''getForumTopicIconStickers'' None s)"
  by (simp add: GetForumTopicIconStickers_def split: prod.split option.split)

lemma EditGeneralForumTopic_state:
  "snd (EditGeneralForumTopic b chat name s) =
   snd (Raw b ''editGeneralForumTopic'' (Some [''chat_id'' \<mapsto> Recipient b chat s, ''name'' \<mapsto> name]) s)"
  by (simp add: EditGeneralForumTopic_def split: prod.split)

lemma CloseGeneralForumTopic_state:
  "snd (CloseGeneralForumTopic b chat s) =
   snd (Raw b ''closeGeneralForumTopic'' (Some [''chat_id'' \<mapsto> Recipient b chat s]) s)"
  by (simp add: CloseGeneralForumTopic_def split: prod.split)

lemma ReopenGeneralForumTopic_state:
  "snd (ReopenGeneralForumTopic b chat s) =
   snd (Raw b ''reopenGeneralForumTopic'' (Some [''chat_id'' \<mapsto> Recipient b chat s]) s)"
  by (simp add: ReopenGeneralForumTopic_def split: prod.split)

lemma HideGeneralForumTopic_state:
  "snd (HideGeneralForumTopic b chat s) =
   snd (Raw b ''hideGeneralForumTopic'' (Some [''chat_id'' \<mapsto> Recipient b chat s]) s)"
  by (simp add: HideGeneralForumTopic_def split: prod.split)

lemma UnhideGeneralForumTopic_state:
  "snd (UnhideGeneralForumTopic b chat s) =
   snd (Raw b ''unhideGeneralForumTopic'' (Some [''chat_id'' \<mapsto> Recipient b chat s]) s)"
  by (simp add: UnhideGeneralForumTopic_def split: prod.split)

lemmas operation_state =
  CreateForumTopic_state EditForumTopic_state CloseForumTopic_state ReopenForumTopic_state
  DeleteForumTopic_state UnpinAllForumTopicMessages_state GetForumTopicIconStickers_state
  EditGeneralForumTopic_state CloseGeneralForumTopic_state ReopenGeneralForumTopic_state
  HideGeneralForumTopic_state UnhideGeneralForumTopic_state

subsection \<open>The keys of the two maps with optional entries\<close>

lemma dom_CreateForumTopic_params:
  "dom (CreateForumTopic_params b chat ft s) =
     {''chat_id'', ''name''}
     \<union> (if IconColor (topicAt b ft s) \<noteq> 0 then {''icon_color''} else {})
     \<union> (if IconCustomEmojiID (topicAt b ft s) \<noteq> '''' then {''icon_custom_emoji_id''} else {})"
  by (auto simp: CreateForumTopic_params_def Let_def)

lemma dom_EditForumTopic_params:
  "dom (EditForumTopic_params b chat msgThreadID name icon s) =
     {''chat_id'', ''message_thread_id''}
     \<union> (if name \<noteq> '''' then {''name''} else {})
     \<union> (if icon \<noteq> '''' then {''icon_custom_emoji_id''} else {})"
  by (auto simp: EditForumTopic_params_def Let_def)

lemma CreateForumTopic_params_color:
  "CreateForumTopic_params b chat ft s ''icon_color'' =
     (if IconColor (topicAt b ft s) = 0 then None else Some (FormatInt (IconColor (topicAt b ft s))))"
  by (simp add: CreateForumTopic_params_def Let_def)

lemma EditForumTopic_params_thread:
  "EditForumTopic_params b chat msgThreadID name icon s ''message_thread_id'' = Some (Itoa msgThreadID)"
  by (simp add: EditForumTopic_params_def Let_def)

subsection \<open>The error an operation returns\<close>

text \<open>
  The ten operations that return only an error return the second value of \<^verbatim>\<open>Raw\<close>;
  the bytes are bound to the blank identifier.
\<close>

lemma EditForumTopic_error:
  "fst (EditForumTopic b chat msgThreadID name icon s) =
   rawErr b ''editForumTopic'' (Some (EditForumTopic_params b chat msgThreadID name icon s)) s"
  by (simp add: EditForumTopic_def split: prod.split)

lemma CloseForumTopic_error:
  "fst (CloseForumTopic b chat msgThreadID s) =
   rawErr b ''closeForumTopic''
     (Some [''chat_id'' \<mapsto> Recipient b chat s, ''message_thread_id'' \<mapsto> Itoa msgThreadID]) s"
  by (simp add: CloseForumTopic_def split: prod.split)

lemma ReopenForumTopic_error:
  "fst (ReopenForumTopic b chat msgThreadID s) =
   rawErr b ''reopenForumTopic''
     (Some [''chat_id'' \<mapsto> Recipient b chat s, ''message_thread_id'' \<mapsto> Itoa msgThreadID]) s"
  by (simp add: ReopenForumTopic_def split: prod.split)

lemma DeleteForumTopic_error:
  "fst (DeleteForumTopic b chat msgThreadID s) =
   rawErr b ''deleteForumTopic''
     (Some [''chat_id'' \<mapsto> Recipient b chat s, ''message_thread_id'' \<mapsto> Itoa msgThreadID]) s"
  by (simp add: DeleteForumTopic_def split: prod.split)

lemma UnpinAllForumTopicMessages_error:
  "fst (UnpinAllForumTopicMessages b chat msgThreadID s) =
   rawErr b ''unpinAllForumTopicMessages''
     (Some [''chat_id'' \<mapsto> Recipient b chat s, ''message_thread_id'' \<mapsto> Itoa msgThreadID]) s"
  by (simp add: UnpinAllForumTopicMessages_def split: prod.split)

lemma EditGeneralForumTopic_error:
  "fst (EditGeneralForumTopic b chat name s) =
   rawErr b ''editGeneralForumTopic'' (Some [''chat_id'' \<mapsto> Recipient b chat s, ''name'' \<mapsto> name]) s"
  by (simp add: EditGeneralForumTopic_def split: prod.split)

lemma CloseGeneralForumTopic_error:
  "fst (CloseGeneralForumTopic b chat s) =
   rawErr b ''closeGeneralForumTopic'' (Some [''chat_id'' \<mapsto> Recipient b chat s]) s"
  by (simp add: CloseGeneralForumTopic_def split: prod.split)

lemma ReopenGeneralForumTopic_error:
  "fst (ReopenGeneralForumTopic b chat s) =
   rawErr b ''reopenGeneralForumTopic'' (Some [''chat_id'' \<mapsto> Recipient b chat s]) s"
  by (simp add: ReopenGeneralForumTopic_def split: prod.split)

lemma HideGeneralForumTopic_error:
  "fst (HideGeneralForumTopic b chat s) =
   rawErr b ''hideGeneralForumTopic'' (Some [''chat_id'' \<mapsto> Recipient b chat s]) s"
  by (simp add: HideGeneralForumTopic_def split: prod.split)

lemma UnhideGeneralForumTopic_error:
  "fst (UnhideGeneralForumTopic b chat s) =
   rawErr b ''unhideGeneralForumTopic'' (Some [''chat_id'' \<mapsto> Recipient b chat s]) s"
  by (simp add: UnhideGeneralForumTopic_def split: prod.split)

lemmas operation_error =
  EditForumTopic_error CloseForumTopic_error ReopenForumTopic_error DeleteForumTopic_error
  UnpinAllForumTopicMessages_error EditGeneralForumTopic_error CloseGeneralForumTopic_error
  ReopenGeneralForumTopic_error HideGeneralForumTopic_error UnhideGeneralForumTopic_error

text \<open>Replacing the bytes that the transport returns changes neither the error nor the state.\<close>

lemma withBody_simps:
  "Recipient (withBody body b) = Recipient b"
  "rawErr (withBody body b) endpoint p s = rawErr b endpoint p s"
  "snd (Raw (withBody body b) endpoint p s) = snd (Raw b endpoint p s)"
  by (simp_all add: withBody_def split: prod.split)

lemma withBody_EditForumTopic_params:
  "EditForumTopic_params (withBody body b) chat msgThreadID name icon s =
   EditForumTopic_params b chat msgThreadID name icon s"
  by (simp add: EditForumTopic_params_def withBody_simps)

text \<open>The two decoding operations return the error of \<^verbatim>\<open>Raw\<close> with a nil result.\<close>

lemma CreateForumTopic_transport_error:
  "rawErr b ''createForumTopic'' (Some (CreateForumTopic_params b chat ft s)) s = Some e \<Longrightarrow>
   fst (CreateForumTopic b chat (Some ft) s) = (None, Some e)"
  by (auto simp: CreateForumTopic_def split: prod.split option.split)

lemma GetForumTopicIconStickers_transport_error:
  "rawErr b ''getForumTopicIconStickers'' None s = Some e \<Longrightarrow>
   fst (GetForumTopicIconStickers b s) = (None, Some e)"
  by (auto simp: GetForumTopicIconStickers_def split: prod.split option.split)

subsection \<open>Decoding the response\<close>

lemma Unmarshal_syntax_error:
  "scan data = Inl e \<Longrightarrow> Unmarshal scan into data = (None, Some e)"
  by (simp add: Unmarshal_def)

lemma CreateForumTopic_decode_error:
  "Raw b ''createForumTopic'' (Some (CreateForumTopic_params b chat ft s)) s = ((data, None), s') \<Longrightarrow>
   snd (Unmarshal (scanJSON b) (topicInto b) data) = Some e \<Longrightarrow>
   CreateForumTopic b chat (Some ft) s = ((None, Some (wrapError b e)), s')"
  by (auto simp: CreateForumTopic_def split: prod.split option.split)

lemma GetForumTopicIconStickers_decode_error:
  "Raw b ''getForumTopicIconStickers'' None s = ((data, None), s') \<Longrightarrow>
   snd (Unmarshal (scanJSON b) (stickersInto b) data) = Some e \<Longrightarrow>
   GetForumTopicIconStickers b s = ((None, Some (wrapError b e)), s')"
  by (auto simp: GetForumTopicIconStickers_def split: prod.split option.split)

lemma CreateForumTopic_decoded:
  "Raw b ''createForumTopic'' (Some (CreateForumTopic_params b chat ft s)) s = ((data, None), s') \<Longrightarrow>
   Unmarshal (scanJSON b) (topicInto b) data = (res, None) \<Longrightarrow>
   CreateForumTopic b chat (Some ft) s = ((res, None), s')"
  by (simp add: CreateForumTopic_def)

lemma GetForumTopicIconStickers_decoded:
  "Raw b ''getForumTopicIconStickers'' None s = ((data, None), s') \<Longrightarrow>
   Unmarshal (scanJSON b) (stickersInto b) data = (res, None) \<Longrightarrow>
   GetForumTopicIconStickers b s = ((res, None), s')"
  by (simp add: GetForumTopicIconStickers_def)

text \<open>
  Members that carry no result leave the field at nil and record no error.
\<close>

lemma decodeObject_without_result:
  "\<not> list_ex resultMember ms \<Longrightarrow> decodeObject into ms (None, saved) = (None, saved)"
proof (induction ms)
  case Nil
  show ?case by simp
next
  case (Cons m ms)
  obtain key v where m: "m = (key, v)" by (cases m)
  from Cons.prems have rest: "\<not> list_ex resultMember ms" by simp
  show ?case
  proof (cases "keyIs ''Result'' key")
    case True
    with Cons.prems m have "v = JNull" by simp
    with True m Cons.IH [OF rest] show ?thesis by simp
  next
    case False
    with m Cons.IH [OF rest] show ?thesis by simp
  qed
qed

lemma Unmarshal_without_result:
  "scan data = Inr v \<Longrightarrow> v = JNull \<or> isObject v \<Longrightarrow> \<not> hasResult v \<Longrightarrow>
   Unmarshal scan into data = (None, None)"
  by (cases v) (simp_all add: Unmarshal_def decodeObject_without_result)

text \<open>
  A value that is neither \<^verbatim>\<open>null\<close> nor an object is refused, whatever the scanner and
  the decoder of the result are.
\<close>

lemma Unmarshal_not_object:
  "scan data = Inr v \<Longrightarrow> v \<noteq> JNull \<Longrightarrow> \<not> isObject v \<Longrightarrow>
   Unmarshal scan into data = (None, Some (UnmarshalTypeError (valueName v)))"
  by (cases v) (simp_all add: Unmarshal_def)

lemma CreateForumTopic_not_object:
  "Raw b ''createForumTopic'' (Some (CreateForumTopic_params b chat ft s)) s = ((data, None), s') \<Longrightarrow>
   scanJSON b data = Inr v \<Longrightarrow> v \<noteq> JNull \<Longrightarrow> \<not> isObject v \<Longrightarrow>
   CreateForumTopic b chat (Some ft) s = ((None, Some (wrapError b (UnmarshalTypeError (valueName v)))), s')"
  by (simp add: CreateForumTopic_def Unmarshal_not_object)

lemma GetForumTopicIconStickers_not_object:
  "Raw b ''getForumTopicIconStickers'' None s = ((data, None), s') \<Longrightarrow>
   scanJSON b data = Inr v \<Longrightarrow> v \<noteq> JNull \<Longrightarrow> \<not> isObject v \<Longrightarrow>
   GetForumTopicIconStickers b s = ((None, Some (wrapError b (UnmarshalTypeError (valueName v)))), s')"
  by (simp add: GetForumTopicIconStickers_def Unmarshal_not_object)

section \<open>The claims\<close>

text \<open>
  \<^bold>\<open>C1.\<close> For every chat reference and every topic, name and icon, the map that
  \<^verbatim>\<open>CreateForumTopic\<close> hands to the transport has the keys \<^verbatim>\<open>chat_id\<close> and \<^verbatim>\<open>name\<close>,
  the key \<^verbatim>\<open>icon_color\<close> exactly when \<^verbatim>\<open>IconColor\<close> is not zero, the key
  \<^verbatim>\<open>icon_custom_emoji_id\<close> exactly when \<^verbatim>\<open>IconCustomEmojiID\<close> is not empty, and no other
  key; the map of \<^verbatim>\<open>EditForumTopic\<close> has the keys \<^verbatim>\<open>chat_id\<close> and \<^verbatim>\<open>message_thread_id\<close>,
  \<^verbatim>\<open>name\<close> exactly when the name is not empty, \<^verbatim>\<open>icon_custom_emoji_id\<close> exactly when the
  icon is not empty, and no other key. The maps are read off the call that the
  recording transport has noted.
\<close>

theorem optional_keys:
  "Raw b = recording respond \<Longrightarrow>
     snd (CreateForumTopic b chat (Some ft) log) =
       log @ [(''createForumTopic'', Some (CreateForumTopic_params b chat ft log))]
   \<and> dom (CreateForumTopic_params b chat ft log) =
       {''chat_id'', ''name''}
       \<union> (if IconColor (topicAt b ft log) \<noteq> 0 then {''icon_color''} else {})
       \<union> (if IconCustomEmojiID (topicAt b ft log) \<noteq> '''' then {''icon_custom_emoji_id''} else {})
   \<and> snd (EditForumTopic b chat msgThreadID name icon log) =
       log @ [(''editForumTopic'', Some (EditForumTopic_params b chat msgThreadID name icon log))]
   \<and> dom (EditForumTopic_params b chat msgThreadID name icon log) =
       {''chat_id'', ''message_thread_id''}
       \<union> (if name \<noteq> '''' then {''name''} else {})
       \<union> (if icon \<noteq> '''' then {''icon_custom_emoji_id''} else {})"
  by (simp only: CreateForumTopic_state EditForumTopic_state recording_state
        dom_CreateForumTopic_params dom_EditForumTopic_params simp_thms)

text \<open>
  A topic with a colour and no emoji, and an edit with an icon and no name: each map
  has three keys.
\<close>

theorem optional_keys_witness:
  "Raw ok_bot = recording (answers ''{\"ok\":true}'')
   \<and> snd (CreateForumTopic ok_bot ''42'' (Some bugs) []) =
       [(''createForumTopic'', Some (CreateForumTopic_params ok_bot ''42'' bugs []))]
   \<and> dom (CreateForumTopic_params ok_bot ''42'' bugs []) = {''chat_id'', ''name'', ''icon_color''}
   \<and> snd (EditForumTopic ok_bot ''42'' 12 '''' ''5312'' []) =
       [(''editForumTopic'', Some (EditForumTopic_params ok_bot ''42'' 12 '''' ''5312'' []))]
   \<and> dom (EditForumTopic_params ok_bot ''42'' 12 '''' ''5312'' []) =
       {''chat_id'', ''message_thread_id'', ''icon_custom_emoji_id''}"
proof -
  have h: "Raw ok_bot = recording (answers ''{\"ok\":true}'')"
    by (simp add: ok_bot_def demo_def)
  have t: "topicAt ok_bot bugs [] = bugs"
    by (simp add: ok_bot_def demo_def)
  have c: "IconColor bugs = 7322096" "IconCustomEmojiID bugs = ''''"
    by (simp_all add: bugs_def)
  show ?thesis
    using h optional_keys [OF h, of "''42''" bugs "[]" 12 "''''" "''5312''"]
    by (simp add: t c insert_commute)
qed

text \<open>
  \<^bold>\<open>C2.\<close> For every chat reference, \<^verbatim>\<open>CreateForumTopic\<close> with a nil topic descriptor
  returns a nil result and the error made by \<^verbatim>\<open>errors.New\<close>, and it makes no call of
  \<^verbatim>\<open>Raw\<close>: the state is returned as it was, whatever the transport is, and with the
  recording transport the list of calls is the one before.
\<close>

theorem CreateForumTopic_nil_topic:
  "CreateForumTopic b chat None s = ((None, Some (ErrorsNew ''telebot: forum topic is nil'')), s)
   \<and> snd (CreateForumTopic (c\<lparr>Raw := recording respond\<rparr>) chat' None log) = log"
  by (simp add: CreateForumTopic_def)

text \<open>
  \<^bold>\<open>C3.\<close> If the call of \<^verbatim>\<open>Raw\<close> that an operation makes returns an error, the operation
  returns this very error, not wrapped and not replaced, and the two operations that
  also return a value return nil for it.
\<close>

theorem transport_error_unchanged:
  "(rawErr b ''createForumTopic'' (Some (CreateForumTopic_params b chat ft s)) s = Some e \<longrightarrow>
      fst (CreateForumTopic b chat (Some ft) s) = (None, Some e))
   \<and> (rawErr b ''getForumTopicIconStickers'' None s = Some e \<longrightarrow>
      fst (GetForumTopicIconStickers b s) = (None, Some e))
   \<and> (rawErr b ''editForumTopic'' (Some (EditForumTopic_params b chat msgThreadID name icon s)) s = Some e \<longrightarrow>
      fst (EditForumTopic b chat msgThreadID name icon s) = Some e)
   \<and> (rawErr b ''closeForumTopic''
        (Some [''chat_id'' \<mapsto> Recipient b chat s, ''message_thread_id'' \<mapsto> Itoa msgThreadID]) s = Some e \<longrightarrow>
      fst (CloseForumTopic b chat msgThreadID s) = Some e)
   \<and> (rawErr b ''reopenForumTopic''
        (Some [''chat_id'' \<mapsto> Recipient b chat s, ''message_thread_id'' \<mapsto> Itoa msgThreadID]) s = Some e \<longrightarrow>
      fst (ReopenForumTopic b chat msgThreadID s) = Some e)
   \<and> (rawErr b ''deleteForumTopic''
        (Some [''chat_id'' \<mapsto> Recipient b chat s, ''message_thread_id'' \<mapsto> Itoa msgThreadID]) s = Some e \<longrightarrow>
      fst (DeleteForumTopic b chat msgThreadID s) = Some e)
   \<and> (rawErr b ''unpinAllForumTopicMessages''
        (Some [''chat_id'' \<mapsto> Recipient b chat s, ''message_thread_id'' \<mapsto> Itoa msgThreadID]) s = Some e \<longrightarrow>
      fst (UnpinAllForumTopicMessages b chat msgThreadID s) = Some e)
   \<and> (rawErr b ''editGeneralForumTopic''
        (Some [''chat_id'' \<mapsto> Recipient b chat s, ''name'' \<mapsto> name]) s = Some e \<longrightarrow>
      fst (EditGeneralForumTopic b chat name s) = Some e)
   \<and> (rawErr b ''closeGeneralForumTopic'' (Some [''chat_id'' \<mapsto> Recipient b chat s]) s = Some e \<longrightarrow>
      fst (CloseGeneralForumTopic b chat s) = Some e)
   \<and> (rawErr b ''reopenGeneralForumTopic'' (Some [''chat_id'' \<mapsto> Recipient b chat s]) s = Some e \<longrightarrow>
      fst (ReopenGeneralForumTopic b chat s) = Some e)
   \<and> (rawErr b ''hideGeneralForumTopic'' (Some [''chat_id'' \<mapsto> Recipient b chat s]) s = Some e \<longrightarrow>
      fst (HideGeneralForumTopic b chat s) = Some e)
   \<and> (rawErr b ''unhideGeneralForumTopic'' (Some [''chat_id'' \<mapsto> Recipient b chat s]) s = Some e \<longrightarrow>
      fst (UnhideGeneralForumTopic b chat s) = Some e)"
  using CreateForumTopic_transport_error [of b chat ft s e]
    GetForumTopicIconStickers_transport_error [of b s e]
  by (simp add: operation_error)

text \<open>A transport that refuses every call: each operation returns its error.\<close>

theorem transport_error_unchanged_witness:
  "rawErr down_bot ''createForumTopic'' (Some (CreateForumTopic_params down_bot ''42'' bugs [])) []
     = Some (Other ''connection refused'')
   \<and> fst (CreateForumTopic down_bot ''42'' (Some bugs) []) = (None, Some (Other ''connection refused''))
   \<and> rawErr down_bot ''getForumTopicIconStickers'' None [] = Some (Other ''connection refused'')
   \<and> fst (GetForumTopicIconStickers down_bot []) = (None, Some (Other ''connection refused''))
   \<and> fst (EditForumTopic down_bot ''42'' 12 ''Bugs'' '''' []) = Some (Other ''connection refused'')
   \<and> fst (CloseForumTopic down_bot ''42'' 12 []) = Some (Other ''connection refused'')
   \<and> fst (ReopenForumTopic down_bot ''42'' 12 []) = Some (Other ''connection refused'')
   \<and> fst (DeleteForumTopic down_bot ''42'' 12 []) = Some (Other ''connection refused'')
   \<and> fst (UnpinAllForumTopicMessages down_bot ''42'' 12 []) = Some (Other ''connection refused'')
   \<and> fst (EditGeneralForumTopic down_bot ''42'' ''Bugs'' []) = Some (Other ''connection refused'')
   \<and> fst (CloseGeneralForumTopic down_bot ''42'' []) = Some (Other ''connection refused'')
   \<and> fst (ReopenGeneralForumTopic down_bot ''42'' []) = Some (Other ''connection refused'')
   \<and> fst (HideGeneralForumTopic down_bot ''42'' []) = Some (Other ''connection refused'')
   \<and> fst (UnhideGeneralForumTopic down_bot ''42'' []) = Some (Other ''connection refused'')"
proof -
  have h: "rawErr down_bot endpoint p log = Some (Other ''connection refused'')" for endpoint p log
    by (simp add: down_bot_def demo_def recording_def refused_def)
  show ?thesis
    using transport_error_unchanged
      [of down_bot "''42''" bugs "[]" "Other ''connection refused''" 12 "''Bugs''" "''''"]
    by (simp only: h simp_thms)
qed

text \<open>
  \<^bold>\<open>C4.\<close> When the transport has returned a body without an error and
  \<^verbatim>\<open>json.Unmarshal\<close> fails on this body with the error \<open>e\<close>, \<^verbatim>\<open>CreateForumTopic\<close> and
  \<^verbatim>\<open>GetForumTopicIconStickers\<close> return a nil result together with \<^verbatim>\<open>wrapError(e)\<close>, which
  is an error and not nil; they never return nil for both.
\<close>

theorem decoding_error_wrapped:
  "(Raw b ''createForumTopic'' (Some (CreateForumTopic_params b chat ft s)) s = ((data, None), s')
      \<and> snd (Unmarshal (scanJSON b) (topicInto b) data) = Some e \<longrightarrow>
    CreateForumTopic b chat (Some ft) s = ((None, Some (wrapError b e)), s'))
   \<and> (Raw b ''getForumTopicIconStickers'' None s = ((data, None), s')
      \<and> snd (Unmarshal (scanJSON b) (stickersInto b) data) = Some e \<longrightarrow>
    GetForumTopicIconStickers b s = ((None, Some (wrapError b e)), s'))"
  using CreateForumTopic_decode_error [of b chat ft s data s' e]
    GetForumTopicIconStickers_decode_error [of b s data s' e]
  by blast

text \<open>
  The body is the single byte \<^verbatim>\<open>{\<close>: the scanner reports the end of the input, and
  both operations return this error behind the package name.
\<close>

theorem decoding_error_wrapped_witness:
  "Raw junk_bot ''createForumTopic'' (Some (CreateForumTopic_params junk_bot ''42'' bugs [])) []
     = ((''{'', None), [(''createForumTopic'', Some (CreateForumTopic_params junk_bot ''42'' bugs []))])
   \<and> snd (Unmarshal (scanJSON junk_bot) (topicInto junk_bot) ''{'')
       = Some (Other ''unexpected end of JSON input'')
   \<and> fst (CreateForumTopic junk_bot ''42'' (Some bugs) [])
       = (None, Some (Other ''telebot: unexpected end of JSON input''))
   \<and> Raw junk_bot ''getForumTopicIconStickers'' None []
       = ((''{'', None), [(''getForumTopicIconStickers'', None)])
   \<and> snd (Unmarshal (scanJSON junk_bot) (stickersInto junk_bot) ''{'')
       = Some (Other ''unexpected end of JSON input'')
   \<and> fst (GetForumTopicIconStickers junk_bot [])
       = (None, Some (Other ''telebot: unexpected end of JSON input''))"
proof -
  have r1: "Raw junk_bot ''createForumTopic'' (Some (CreateForumTopic_params junk_bot ''42'' bugs [])) []
     = ((''{'', None), [(''createForumTopic'', Some (CreateForumTopic_params junk_bot ''42'' bugs []))])"
    by (simp add: junk_bot_def demo_def recording_def answers_def)
  have r2: "Raw junk_bot ''getForumTopicIconStickers'' None []
     = ((''{'', None), [(''getForumTopicIconStickers'', None)])"
    by (simp add: junk_bot_def demo_def recording_def answers_def)
  have sc: "scanJSON junk_bot ''{'' = Inl (Other ''unexpected end of JSON input'')"
    by (simp add: junk_bot_def demo_def scanExamples_def)
  have u1: "snd (Unmarshal (scanJSON junk_bot) (topicInto junk_bot) ''{'')
       = Some (Other ''unexpected end of JSON input'')"
    by (simp add: Unmarshal_def sc)
  have u2: "snd (Unmarshal (scanJSON junk_bot) (stickersInto junk_bot) ''{'')
       = Some (Other ''unexpected end of JSON input'')"
    by (simp add: Unmarshal_def sc)
  have w: "wrapError junk_bot (Other ''unexpected end of JSON input'')
       = Other ''telebot: unexpected end of JSON input''"
    by (simp add: junk_bot_def demo_def)
  show ?thesis
    using r1 r2 u1 u2
      decoding_error_wrapped [of junk_bot "''42''" bugs "[]" "''{''"
        "[(''createForumTopic'', Some (CreateForumTopic_params junk_bot ''42'' bugs []))]"
        "Other ''unexpected end of JSON input''"]
      decoding_error_wrapped [of junk_bot "''42''" bugs "[]" "''{''"
        "[(''getForumTopicIconStickers'', None)]"
        "Other ''unexpected end of JSON input''"]
    by (simp add: w)
qed

text \<open>
  \<^bold>\<open>C5.\<close> Each of the twelve operations calls the transport with its own endpoint
  name, and at most once: after an operation, the endpoint names that the recording
  transport has noted are the ones before followed by the name of the operation, and
  after \<^verbatim>\<open>CreateForumTopic\<close> with a nil topic they are the ones before.
\<close>

theorem endpoint_names:
  "Raw b = recording respond \<Longrightarrow>
     map fst (snd (CreateForumTopic b chat (Some ft) log)) = map fst log @ [''createForumTopic'']
   \<and> map fst (snd (CreateForumTopic b chat None log)) = map fst log
   \<and> map fst (snd (EditForumTopic b chat msgThreadID name icon log)) = map fst log @ [''editForumTopic'']
   \<and> map fst (snd (CloseForumTopic b chat msgThreadID log)) = map fst log @ [''closeForumTopic'']
   \<and> map fst (snd (ReopenForumTopic b chat msgThreadID log)) = map fst log @ [''reopenForumTopic'']
   \<and> map fst (snd (DeleteForumTopic b chat msgThreadID log)) = map fst log @ [''deleteForumTopic'']
   \<and> map fst (snd (UnpinAllForumTopicMessages b chat msgThreadID log)) =
       map fst log @ [''unpinAllForumTopicMessages'']
   \<and> map fst (snd (GetForumTopicIconStickers b log)) = map fst log @ [''getForumTopicIconStickers'']
   \<and> map fst (snd (EditGeneralForumTopic b chat name log)) = map fst log @ [''editGeneralForumTopic'']
   \<and> map fst (snd (CloseGeneralForumTopic b chat log)) = map fst log @ [''closeGeneralForumTopic'']
   \<and> map fst (snd (ReopenGeneralForumTopic b chat log)) = map fst log @ [''reopenGeneralForumTopic'']
   \<and> map fst (snd (HideGeneralForumTopic b chat log)) = map fst log @ [''hideGeneralForumTopic'']
   \<and> map fst (snd (UnhideGeneralForumTopic b chat log)) = map fst log @ [''unhideGeneralForumTopic'']"
proof -
  assume r: "Raw b = recording respond"
  have nil: "snd (CreateForumTopic b chat None log) = log"
    by (simp add: CreateForumTopic_def)
  show ?thesis
    unfolding operation_state nil r recording_state by simp
qed

text \<open>The twelve operations and the nil topic, each on an empty list of calls.\<close>

theorem endpoint_names_witness:
  "Raw ok_bot = recording (answers ''{\"ok\":true}'')
   \<and> map fst (snd (CreateForumTopic ok_bot ''42'' (Some bugs) [])) = [''createForumTopic'']
   \<and> map fst (snd (CreateForumTopic ok_bot ''42'' None [])) = []
   \<and> map fst (snd (EditForumTopic ok_bot ''42'' 12 ''Bugs'' '''' [])) = [''editForumTopic'']
   \<and> map fst (snd (CloseForumTopic ok_bot ''42'' 12 [])) = [''closeForumTopic'']
   \<and> map fst (snd (ReopenForumTopic ok_bot ''42'' 12 [])) = [''reopenForumTopic'']
   \<and> map fst (snd (DeleteForumTopic ok_bot ''42'' 12 [])) = [''deleteForumTopic'']
   \<and> map fst (snd (UnpinAllForumTopicMessages ok_bot ''42'' 12 [])) = [''unpinAllForumTopicMessages'']
   \<and> map fst (snd (GetForumTopicIconStickers ok_bot [])) = [''getForumTopicIconStickers'']
   \<and> map fst (snd (EditGeneralForumTopic ok_bot ''42'' ''Bugs'' [])) = [''editGeneralForumTopic'']
   \<and> map fst (snd (CloseGeneralForumTopic ok_bot ''42'' [])) = [''closeGeneralForumTopic'']
   \<and> map fst (snd (ReopenGeneralForumTopic ok_bot ''42'' [])) = [''reopenGeneralForumTopic'']
   \<and> map fst (snd (HideGeneralForumTopic ok_bot ''42'' [])) = [''hideGeneralForumTopic'']
   \<and> map fst (snd (UnhideGeneralForumTopic ok_bot ''42'' [])) = [''unhideGeneralForumTopic'']"
proof -
  have h: "Raw ok_bot = recording (answers ''{\"ok\":true}'')"
    by (simp add: ok_bot_def demo_def)
  show ?thesis
    using h endpoint_names [OF h, of "''42''" bugs "[]" 12 "''Bugs''" "''''"]
    by simp
qed

text \<open>
  \<^bold>\<open>C6.\<close> For an icon colour and a thread identifier that are not negative, the text
  that \<^verbatim>\<open>FormatInt\<close> and \<^verbatim>\<open>Itoa\<close> produce is a decimal numeral (digits only, so no sign,
  and no leading zero) that denotes the integer, and this text is what the maps hold:
  under \<^verbatim>\<open>icon_color\<close> in the map of \<^verbatim>\<open>CreateForumTopic\<close> (where a colour of zero has no
  entry), under \<^verbatim>\<open>message_thread_id\<close> in the maps of the five operations on a thread.
\<close>

theorem integers_as_decimal_text:
  "Raw b = recording respond \<Longrightarrow> 0 \<le> sint (IconColor (topicAt b ft log)) \<Longrightarrow> 0 \<le> sint msgThreadID \<Longrightarrow>
     isDecimal (FormatInt (IconColor (topicAt b ft log)))
   \<and> decimalValue (FormatInt (IconColor (topicAt b ft log))) = nat (sint (IconColor (topicAt b ft log)))
   \<and> (\<exists>P. snd (CreateForumTopic b chat (Some ft) log) = log @ [(''createForumTopic'', Some P)]
          \<and> P ''icon_color'' = (if IconColor (topicAt b ft log) = 0 then None
                                 else Some (FormatInt (IconColor (topicAt b ft log)))))
   \<and> isDecimal (Itoa msgThreadID)
   \<and> decimalValue (Itoa msgThreadID) = nat (sint msgThreadID)
   \<and> (\<exists>P. snd (EditForumTopic b chat msgThreadID name icon log) = log @ [(''editForumTopic'', Some P)]
          \<and> P ''message_thread_id'' = Some (Itoa msgThreadID))
   \<and> (\<exists>P. snd (CloseForumTopic b chat msgThreadID log) = log @ [(''closeForumTopic'', Some P)]
          \<and> P ''message_thread_id'' = Some (Itoa msgThreadID))
   \<and> (\<exists>P. snd (ReopenForumTopic b chat msgThreadID log) = log @ [(''reopenForumTopic'', Some P)]
          \<and> P ''message_thread_id'' = Some (Itoa msgThreadID))
   \<and> (\<exists>P. snd (DeleteForumTopic b chat msgThreadID log) = log @ [(''deleteForumTopic'', Some P)]
          \<and> P ''message_thread_id'' = Some (Itoa msgThreadID))
   \<and> (\<exists>P. snd (UnpinAllForumTopicMessages b chat msgThreadID log) =
            log @ [(''unpinAllForumTopicMessages'', Some P)]
          \<and> P ''message_thread_id'' = Some (Itoa msgThreadID))"
proof -
  assume r: "Raw b = recording respond"
    and color: "0 \<le> sint (IconColor (topicAt b ft log))"
    and thread: "0 \<le> sint msgThreadID"
  have sent: "(\<exists>P. snd (CreateForumTopic b chat (Some ft) log) = log @ [(''createForumTopic'', Some P)]
          \<and> P ''icon_color'' = (if IconColor (topicAt b ft log) = 0 then None
                                 else Some (FormatInt (IconColor (topicAt b ft log)))))
   \<and> (\<exists>P. snd (EditForumTopic b chat msgThreadID name icon log) = log @ [(''editForumTopic'', Some P)]
          \<and> P ''message_thread_id'' = Some (Itoa msgThreadID))
   \<and> (\<exists>P. snd (CloseForumTopic b chat msgThreadID log) = log @ [(''closeForumTopic'', Some P)]
          \<and> P ''message_thread_id'' = Some (Itoa msgThreadID))
   \<and> (\<exists>P. snd (ReopenForumTopic b chat msgThreadID log) = log @ [(''reopenForumTopic'', Some P)]
          \<and> P ''message_thread_id'' = Some (Itoa msgThreadID))
   \<and> (\<exists>P. snd (DeleteForumTopic b chat msgThreadID log) = log @ [(''deleteForumTopic'', Some P)]
          \<and> P ''message_thread_id'' = Some (Itoa msgThreadID))
   \<and> (\<exists>P. snd (UnpinAllForumTopicMessages b chat msgThreadID log) =
            log @ [(''unpinAllForumTopicMessages'', Some P)]
          \<and> P ''message_thread_id'' = Some (Itoa msgThreadID))"
    unfolding operation_state r recording_state
    by (simp add: CreateForumTopic_params_color EditForumTopic_params_thread)
  show ?thesis
    using sent FormatInt_decimal [OF color] FormatInt_decimal [OF thread]
    by (simp add: Itoa_def)
qed

text \<open>The colour 7322096 of the source's comment and the thread 12.\<close>

theorem integers_as_decimal_text_witness:
  "Raw ok_bot = recording (answers ''{\"ok\":true}'')
   \<and> 0 \<le> sint (IconColor (topicAt ok_bot bugs []))
   \<and> 0 \<le> sint (12 :: go_int)
   \<and> FormatInt (IconColor (topicAt ok_bot bugs [])) = ''7322096''
   \<and> isDecimal ''7322096'' \<and> decimalValue ''7322096'' = 7322096
   \<and> (\<exists>P. snd (CreateForumTopic ok_bot ''42'' (Some bugs) []) = [(''createForumTopic'', Some P)]
          \<and> P ''icon_color'' = Some ''7322096'')
   \<and> Itoa 12 = ''12''
   \<and> isDecimal ''12'' \<and> decimalValue ''12'' = 12
   \<and> (\<exists>P. snd (CloseForumTopic ok_bot ''42'' 12 []) = [(''closeForumTopic'', Some P)]
          \<and> P ''message_thread_id'' = Some ''12'')"
proof -
  have h: "Raw ok_bot = recording (answers ''{\"ok\":true}'')"
    by (simp add: ok_bot_def demo_def)
  have t: "IconColor (topicAt ok_bot bugs []) = 7322096"
    by (simp add: ok_bot_def demo_def bugs_def)
  have c: "0 \<le> sint (IconColor (topicAt ok_bot bugs []))"
    by (simp add: t)
  have i: "0 \<le> sint (12 :: go_int)"
    by simp
  show ?thesis
    using h c i integers_as_decimal_text [OF h c i, of "''42''" "''Bugs''" "''''"]
    by (simp add: t FormatInt_7322096 Itoa_12)
qed

text \<open>
  \<^bold>\<open>C7.\<close> The operations without optional parameters send their required parameters
  and nothing else: the map noted by the recording transport has the keys \<^verbatim>\<open>chat_id\<close>
  and \<^verbatim>\<open>message_thread_id\<close> for closing, reopening and deleting a topic and for
  unpinning its messages; the key \<^verbatim>\<open>chat_id\<close> for closing, reopening, hiding and
  unhiding the general topic; the keys \<^verbatim>\<open>chat_id\<close> and \<^verbatim>\<open>name\<close> for editing the general
  topic, with the name given, empty or not, under \<^verbatim>\<open>name\<close>; and the listing of the icon
  stickers sends \<^verbatim>\<open>nil\<close>, no map at all.
\<close>

theorem required_parameters:
  "Raw b = recording respond \<Longrightarrow>
     (\<exists>P. snd (CloseForumTopic b chat msgThreadID log) = log @ [(''closeForumTopic'', Some P)]
          \<and> dom P = {''chat_id'', ''message_thread_id''})
   \<and> (\<exists>P. snd (ReopenForumTopic b chat msgThreadID log) = log @ [(''reopenForumTopic'', Some P)]
          \<and> dom P = {''chat_id'', ''message_thread_id''})
   \<and> (\<exists>P. snd (DeleteForumTopic b chat msgThreadID log) = log @ [(''deleteForumTopic'', Some P)]
          \<and> dom P = {''chat_id'', ''message_thread_id''})
   \<and> (\<exists>P. snd (UnpinAllForumTopicMessages b chat msgThreadID log) =
            log @ [(''unpinAllForumTopicMessages'', Some P)]
          \<and> dom P = {''chat_id'', ''message_thread_id''})
   \<and> (\<exists>P. snd (CloseGeneralForumTopic b chat log) = log @ [(''closeGeneralForumTopic'', Some P)]
          \<and> dom P = {''chat_id''})
   \<and> (\<exists>P. snd (ReopenGeneralForumTopic b chat log) = log @ [(''reopenGeneralForumTopic'', Some P)]
          \<and> dom P = {''chat_id''})
   \<and> (\<exists>P. snd (HideGeneralForumTopic b chat log) = log @ [(''hideGeneralForumTopic'', Some P)]
          \<and> dom P = {''chat_id''})
   \<and> (\<exists>P. snd (UnhideGeneralForumTopic b chat log) = log @ [(''unhideGeneralForumTopic'', Some P)]
          \<and> dom P = {''chat_id''})
   \<and> (\<exists>P. snd (EditGeneralForumTopic b chat name log) = log @ [(''editGeneralForumTopic'', Some P)]
          \<and> dom P = {''chat_id'', ''name''} \<and> P ''name'' = Some name)
   \<and> snd (GetForumTopicIconStickers b log) = log @ [(''getForumTopicIconStickers'', None)]"
proof -
  assume r: "Raw b = recording respond"
  show ?thesis
    unfolding operation_state r recording_state by auto
qed

text \<open>
  One operation of each kind; the general topic is edited with the empty name, which
  is sent.
\<close>

theorem required_parameters_witness:
  "Raw ok_bot = recording (answers ''{\"ok\":true}'')
   \<and> (\<exists>P. snd (CloseForumTopic ok_bot ''42'' 12 []) = [(''closeForumTopic'', Some P)]
          \<and> dom P = {''chat_id'', ''message_thread_id''})
   \<and> (\<exists>P. snd (HideGeneralForumTopic ok_bot ''42'' []) = [(''hideGeneralForumTopic'', Some P)]
          \<and> dom P = {''chat_id''})
   \<and> (\<exists>P. snd (EditGeneralForumTopic ok_bot ''42'' '''' []) = [(''editGeneralForumTopic'', Some P)]
          \<and> dom P = {''chat_id'', ''name''} \<and> P ''name'' = Some '''')
   \<and> snd (GetForumTopicIconStickers ok_bot []) = [(''getForumTopicIconStickers'', None)]"
proof -
  have h: "Raw ok_bot = recording (answers ''{\"ok\":true}'')"
    by (simp add: ok_bot_def demo_def)
  show ?thesis
    using h required_parameters [OF h, of "''42''" 12 "[]" "''''"]
    by simp
qed

text \<open>
  \<^bold>\<open>C8.\<close> No operation changes local state. The file assigns to its own local
  variables only, so whatever an operation does to the state is done by its one call
  of \<^verbatim>\<open>Raw\<close>: every part \<open>obs\<close> of the state that the transport leaves alone (the fields
  of the \<^verbatim>\<open>Bot\<close>, the \<^verbatim>\<open>Chat\<close> and the topic descriptor behind the pointers passed) is
  after each operation what it was before, whether the call succeeds or fails, and
  also when the topic descriptor is nil.
\<close>

theorem local_state_unchanged:
  assumes "\<And>method p s. obs (snd (Raw b method p s)) = obs s"
  shows "obs (snd (CreateForumTopic b chat ft s)) = obs s
   \<and> obs (snd (EditForumTopic b chat msgThreadID name icon s)) = obs s
   \<and> obs (snd (CloseForumTopic b chat msgThreadID s)) = obs s
   \<and> obs (snd (ReopenForumTopic b chat msgThreadID s)) = obs s
   \<and> obs (snd (DeleteForumTopic b chat msgThreadID s)) = obs s
   \<and> obs (snd (UnpinAllForumTopicMessages b chat msgThreadID s)) = obs s
   \<and> obs (snd (GetForumTopicIconStickers b s)) = obs s
   \<and> obs (snd (EditGeneralForumTopic b chat name s)) = obs s
   \<and> obs (snd (CloseGeneralForumTopic b chat s)) = obs s
   \<and> obs (snd (ReopenGeneralForumTopic b chat s)) = obs s
   \<and> obs (snd (HideGeneralForumTopic b chat s)) = obs s
   \<and> obs (snd (UnhideGeneralForumTopic b chat s)) = obs s"
proof -
  have "obs (snd (CreateForumTopic b chat ft s)) = obs s"
  proof (cases ft)
    case None
    then show ?thesis by (simp add: CreateForumTopic_def)
  next
    case (Some p)
    then show ?thesis by (simp only: CreateForumTopic_state assms)
  qed
  then show ?thesis
    by (simp only: operation_state assms simp_thms)
qed

text \<open>
  The transport of \<open>local_bot\<close> works on the list of calls and leaves the number next
  to it alone; the number is 7 before and after, while the list of calls grows.
\<close>

theorem local_state_unchanged_witness:
  "(\<forall>method p s. fst (snd (Raw local_bot method p s)) = fst s)
   \<and> fst (snd (CreateForumTopic local_bot ''42'' (Some bugs) (7, []))) = 7
   \<and> fst (snd (CreateForumTopic local_bot ''42'' None (7, []))) = 7
   \<and> fst (snd (EditForumTopic local_bot ''42'' 12 ''Bugs'' '''' (7, []))) = 7
   \<and> fst (snd (CloseForumTopic local_bot ''42'' 12 (7, []))) = 7
   \<and> fst (snd (GetForumTopicIconStickers local_bot (7, []))) = 7
   \<and> fst (snd (UnhideGeneralForumTopic local_bot ''42'' (7, []))) = 7
   \<and> snd (snd (GetForumTopicIconStickers local_bot (7, []))) = [(''getForumTopicIconStickers'', None)]"
proof -
  have h: "fst (snd (Raw local_bot endpoint p s)) = fst s" for endpoint p s
    by (simp add: local_bot_def demo_def remote_def split: prod.split)
  have calls: "snd (snd (GetForumTopicIconStickers local_bot (7, []))) = [(''getForumTopicIconStickers'', None)]"
    by (simp add: GetForumTopicIconStickers_state)
       (simp add: local_bot_def demo_def remote_def recording_def)
  show ?thesis
    using h calls
      local_state_unchanged [of fst local_bot "''42''" "Some bugs" "(7, [])" 12 "''Bugs''" "''''", OF h]
      local_state_unchanged [of fst local_bot "''42''" None "(7, [])" 12 "''Bugs''" "''''", OF h]
    by simp
qed

text \<open>
  \<^bold>\<open>C9\<close>, as the claim states it, says that every well-formed JSON body without a usable
  \<^verbatim>\<open>Result\<close> gives a nil result and a nil error. The body \<^verbatim>\<open>[]\<close> is well-formed JSON and
  has no \<^verbatim>\<open>Result\<close>, but an array cannot be stored into the struct of the response:
  \<^verbatim>\<open>json.Unmarshal\<close> returns an error and both operations return it, wrapped, as they
  do for every body on which unmarshalling fails.
\<close>

theorem array_body_is_rejected:
  "Raw array_bot ''createForumTopic'' (Some (CreateForumTopic_params array_bot ''42'' bugs [])) []
     = ((''[]'', None), [(''createForumTopic'', Some (CreateForumTopic_params array_bot ''42'' bugs []))])
   \<and> Raw array_bot ''getForumTopicIconStickers'' None []
     = ((''[]'', None), [(''getForumTopicIconStickers'', None)])
   \<and> scanJSON array_bot ''[]'' = Inr (JArray [])
   \<and> \<not> hasResult (JArray [])
   \<and> fst (CreateForumTopic array_bot ''42'' (Some bugs) [])
       = (None, Some (Other ''telebot: json: cannot unmarshal array''))
   \<and> fst (CreateForumTopic array_bot ''42'' (Some bugs) []) \<noteq> (None, None)
   \<and> fst (GetForumTopicIconStickers array_bot [])
       = (None, Some (Other ''telebot: json: cannot unmarshal array''))
   \<and> fst (GetForumTopicIconStickers array_bot []) \<noteq> (None, None)"
  by (simp add: CreateForumTopic_def GetForumTopicIconStickers_def Unmarshal_def
        array_bot_def demo_def recording_def answers_def scanExamples_def)

text \<open>
  \<^bold>\<open>C9\<close>, amended. When the transport has returned a body without an error, and the
  body is the JSON text \<^verbatim>\<open>null\<close> or a JSON object in which no member whose key selects
  \<^verbatim>\<open>Result\<close> has a value other than \<^verbatim>\<open>null\<close> (as in \<^verbatim>\<open>{}\<close> and \<^verbatim>\<open>{"ok":true}\<close>), then
  \<^verbatim>\<open>CreateForumTopic\<close> returns a nil topic with a nil error and
  \<^verbatim>\<open>GetForumTopicIconStickers\<close> returns a nil slice with a nil error.
\<close>

theorem empty_result_without_error:
  "(Raw b ''createForumTopic'' (Some (CreateForumTopic_params b chat ft s)) s = ((data, None), s')
      \<and> scanJSON b data = Inr v \<and> (v = JNull \<or> isObject v) \<and> \<not> hasResult v \<longrightarrow>
    CreateForumTopic b chat (Some ft) s = ((None, None), s'))
   \<and> (Raw b ''getForumTopicIconStickers'' None s = ((data, None), s')
      \<and> scanJSON b data = Inr v \<and> (v = JNull \<or> isObject v) \<and> \<not> hasResult v \<longrightarrow>
    GetForumTopicIconStickers b s = ((None, None), s'))"
proof (intro conjI impI)
  assume a: "Raw b ''createForumTopic'' (Some (CreateForumTopic_params b chat ft s)) s = ((data, None), s')
      \<and> scanJSON b data = Inr v \<and> (v = JNull \<or> isObject v) \<and> \<not> hasResult v"
  then have "Unmarshal (scanJSON b) (topicInto b) data = (None, None)"
    by (intro Unmarshal_without_result [of _ _ v]) simp_all
  with a show "CreateForumTopic b chat (Some ft) s = ((None, None), s')"
    by (intro CreateForumTopic_decoded [of _ _ _ _ data]) simp_all
next
  assume a: "Raw b ''getForumTopicIconStickers'' None s = ((data, None), s')
      \<and> scanJSON b data = Inr v \<and> (v = JNull \<or> isObject v) \<and> \<not> hasResult v"
  then have "Unmarshal (scanJSON b) (stickersInto b) data = (None, None)"
    by (intro Unmarshal_without_result [of _ _ v]) simp_all
  with a show "GetForumTopicIconStickers b s = ((None, None), s')"
    by (intro GetForumTopicIconStickers_decoded [of _ _ data]) simp_all
qed

text \<open>The two bodies of the claim: \<^verbatim>\<open>{"ok":true}\<close> for the topic, \<^verbatim>\<open>{}\<close> for the stickers.\<close>

theorem empty_result_without_error_witness:
  "Raw ok_bot ''createForumTopic'' (Some (CreateForumTopic_params ok_bot ''42'' bugs [])) []
     = ((''{\"ok\":true}'', None), [(''createForumTopic'', Some (CreateForumTopic_params ok_bot ''42'' bugs []))])
   \<and> scanJSON ok_bot ''{\"ok\":true}'' = Inr (JObject [(''ok'', JBool True)])
   \<and> isObject (JObject [(''ok'', JBool True)]) \<and> \<not> hasResult (JObject [(''ok'', JBool True)])
   \<and> fst (CreateForumTopic ok_bot ''42'' (Some bugs) []) = (None, None)
   \<and> Raw empty_bot ''getForumTopicIconStickers'' None []
     = ((''{}'', None), [(''getForumTopicIconStickers'', None)])
   \<and> scanJSON empty_bot ''{}'' = Inr (JObject [])
   \<and> isObject (JObject []) \<and> \<not> hasResult (JObject [])
   \<and> fst (GetForumTopicIconStickers empty_bot []) = (None, None)"
proof -
  have r1: "Raw ok_bot ''createForumTopic'' (Some (CreateForumTopic_params ok_bot ''42'' bugs [])) []
     = ((''{\"ok\":true}'', None), [(''createForumTopic'', Some (CreateForumTopic_params ok_bot ''42'' bugs []))])"
    by (simp add: ok_bot_def demo_def recording_def answers_def)
  have s1: "scanJSON ok_bot ''{\"ok\":true}'' = Inr (JObject [(''ok'', JBool True)])"
    by (simp add: ok_bot_def demo_def scanExamples_def)
  have n1: "\<not> hasResult (JObject [(''ok'', JBool True)])"
    by (simp add: upper_def)
  have r2: "Raw empty_bot ''getForumTopicIconStickers'' None []
     = ((''{}'', None), [(''getForumTopicIconStickers'', None)])"
    by (simp add: empty_bot_def demo_def recording_def answers_def)
  have s2: "scanJSON empty_bot ''{}'' = Inr (JObject [])"
    by (simp add: empty_bot_def demo_def scanExamples_def)
  show ?thesis
    using r1 s1 n1 r2 s2
      empty_result_without_error [of ok_bot "''42''" bugs "[]" "''{\"ok\":true}''"
        "[(''createForumTopic'', Some (CreateForumTopic_params ok_bot ''42'' bugs []))]"
        "JObject [(''ok'', JBool True)]"]
      empty_result_without_error [of empty_bot "''42''" bugs "[]" "''{}''"
        "[(''getForumTopicIconStickers'', None)]" "JObject []"]
    by simp
qed

text \<open>
  \<^bold>\<open>C10.\<close> The ten operations that change a topic never look at the response body: the
  error each of them returns is the error of its call of \<^verbatim>\<open>Raw\<close>, so it is nil if and
  only if the error of \<^verbatim>\<open>Raw\<close> is; and with a transport that returns any other bytes
  \<open>body\<close>, well-formed or not, in place of its own, each of them returns the same error
  and leaves the same state.
\<close>

theorem mutating_operations_ignore_body:
  "fst (EditForumTopic b chat msgThreadID name icon s) =
     rawErr b ''editForumTopic'' (Some (EditForumTopic_params b chat msgThreadID name icon s)) s
   \<and> fst (CloseForumTopic b chat msgThreadID s) =
     rawErr b ''closeForumTopic''
       (Some [''chat_id'' \<mapsto> Recipient b chat s, ''message_thread_id'' \<mapsto> Itoa msgThreadID]) s
   \<and> fst (ReopenForumTopic b chat msgThreadID s) =
     rawErr b ''reopenForumTopic''
       (Some [''chat_id'' \<mapsto> Recipient b chat s, ''message_thread_id'' \<mapsto> Itoa msgThreadID]) s
   \<and> fst (DeleteForumTopic b chat msgThreadID s) =
     rawErr b ''deleteForumTopic''
       (Some [''chat_id'' \<mapsto> Recipient b chat s, ''message_thread_id'' \<mapsto> Itoa msgThreadID]) s
   \<and> fst (UnpinAllForumTopicMessages b chat msgThreadID s) =
     rawErr b ''unpinAllForumTopicMessages''
       (Some [''chat_id'' \<mapsto> Recipient b chat s, ''message_thread_id'' \<mapsto> Itoa msgThreadID]) s
   \<and> fst (EditGeneralForumTopic b chat name s) =
     rawErr b ''editGeneralForumTopic'' (Some [''chat_id'' \<mapsto> Recipient b chat s, ''name'' \<mapsto> name]) s
   \<and> fst (CloseGeneralForumTopic b chat s) =
     rawErr b ''closeGeneralForumTopic'' (Some [''chat_id'' \<mapsto> Recipient b chat s]) s
   \<and> fst (ReopenGeneralForumTopic b chat s) =
     rawErr b ''reopenGeneralForumTopic'' (Some [''chat_id'' \<mapsto> Recipient b chat s]) s
   \<and> fst (HideGeneralForumTopic b chat s) =
     rawErr b ''hideGeneralForumTopic'' (Some [''chat_id'' \<mapsto> Recipient b chat s]) s
   \<and> fst (UnhideGeneralForumTopic b chat s) =
     rawErr b ''unhideGeneralForumTopic'' (Some [''chat_id'' \<mapsto> Recipient b chat s]) s
   \<and> EditForumTopic (withBody body b) chat msgThreadID name icon s = EditForumTopic b chat msgThreadID name icon s
   \<and> CloseForumTopic (withBody body b) chat msgThreadID s = CloseForumTopic b chat msgThreadID s
   \<and> ReopenForumTopic (withBody body b) chat msgThreadID s = ReopenForumTopic b chat msgThreadID s
   \<and> DeleteForumTopic (withBody body b) chat msgThreadID s = DeleteForumTopic b chat msgThreadID s
   \<and> UnpinAllForumTopicMessages (withBody body b) chat msgThreadID s =
       UnpinAllForumTopicMessages b chat msgThreadID s
   \<and> EditGeneralForumTopic (withBody body b) chat name s = EditGeneralForumTopic b chat name s
   \<and> CloseGeneralForumTopic (withBody body b) chat s = CloseGeneralForumTopic b chat s
   \<and> ReopenGeneralForumTopic (withBody body b) chat s = ReopenGeneralForumTopic b chat s
   \<and> HideGeneralForumTopic (withBody body b) chat s = HideGeneralForumTopic b chat s
   \<and> UnhideGeneralForumTopic (withBody body b) chat s = UnhideGeneralForumTopic b chat s"
proof -
  have bodies:
    "EditForumTopic (withBody body b) chat msgThreadID name icon s = EditForumTopic b chat msgThreadID name icon s"
    "CloseForumTopic (withBody body b) chat msgThreadID s = CloseForumTopic b chat msgThreadID s"
    "ReopenForumTopic (withBody body b) chat msgThreadID s = ReopenForumTopic b chat msgThreadID s"
    "DeleteForumTopic (withBody body b) chat msgThreadID s = DeleteForumTopic b chat msgThreadID s"
    "UnpinAllForumTopicMessages (withBody body b) chat msgThreadID s =
       UnpinAllForumTopicMessages b chat msgThreadID s"
    "EditGeneralForumTopic (withBody body b) chat name s = EditGeneralForumTopic b chat name s"
    "CloseGeneralForumTopic (withBody body b) chat s = CloseGeneralForumTopic b chat s"
    "ReopenGeneralForumTopic (withBody body b) chat s = ReopenGeneralForumTopic b chat s"
    "HideGeneralForumTopic (withBody body b) chat s = HideGeneralForumTopic b chat s"
    "UnhideGeneralForumTopic (withBody body b) chat s = UnhideGeneralForumTopic b chat s"
    by (simp_all add: EditForumTopic_def CloseForumTopic_def ReopenForumTopic_def DeleteForumTopic_def
          UnpinAllForumTopicMessages_def EditGeneralForumTopic_def CloseGeneralForumTopic_def
          ReopenGeneralForumTopic_def HideGeneralForumTopic_def UnhideGeneralForumTopic_def
          withBody_EditForumTopic_params withBody_simps)
       (simp_all add: withBody_def split: prod.split)
  show ?thesis
    by (simp only: operation_error bodies simp_thms)
qed

text \<open>
  The transport answers with the single byte \<^verbatim>\<open>{\<close>, which is not JSON, and with no
  error: the operations return nil.
\<close>

lemma mutating_operations_malformed_body:
  "scanJSON junk_bot ''{'' = Inl (Other ''unexpected end of JSON input'')
   \<and> Raw junk_bot ''editForumTopic'' (Some (EditForumTopic_params junk_bot ''42'' 12 ''Bugs'' '''' [])) []
       = ((''{'', None), [(''editForumTopic'', Some (EditForumTopic_params junk_bot ''42'' 12 ''Bugs'' '''' []))])
   \<and> fst (EditForumTopic junk_bot ''42'' 12 ''Bugs'' '''' []) = None
   \<and> fst (CloseForumTopic junk_bot ''42'' 12 []) = None
   \<and> fst (HideGeneralForumTopic junk_bot ''42'' []) = None"
  by (simp add: operation_error junk_bot_def demo_def recording_def answers_def scanExamples_def)

end
